theory Spec2Isabelle
  imports Main "HOL-Library.Word" "HOL-Library.Multiset" "HOL-Library.Sublist"
begin

section \<open>dogconf: the semantic analyzer and the address helper\<close>

text \<open>
  The development embeds two Go files of package \<^verbatim>\<open>dogconf\<close>: the semantic analyzer
  (\<^verbatim>\<open>Analyze\<close>, \<^verbatim>\<open>analyzePatch\<close>, \<^verbatim>\<open>analyzeCreate\<close>, \<^verbatim>\<open>analyzeGet\<close>,
  \<^verbatim>\<open>newPatchDirective\<close>, \<^verbatim>\<open>newCreateDirective\<close>, \<^verbatim>\<open>initAttrChange\<close>, \<^verbatim>\<open>semErrf\<close>) in the
  revision that has all three of \<^verbatim>\<open>analyzePatch\<close>, \<^verbatim>\<open>analyzeCreate\<close> and \<^verbatim>\<open>analyzeGet\<close>,
  the semantic types of \<^verbatim>\<open>sem_types.go\<close>, and \<^verbatim>\<open>dtoi\<close> and \<^verbatim>\<open>hostPortToAddr\<close> of
  \<^verbatim>\<open>net_help.go\<close>.

  Go values are modelled as follows. A function that can panic returns an \<open>outcome\<close>. A Go
  result pair \<^verbatim>\<open>(value, error)\<close> is a pair whose error component is an \<open>option\<close>
  (\<open>None\<close> is \<^verbatim>\<open>nil\<close>), or a sum when the function returns exactly one of the two. A
  pointer that may be \<^verbatim>\<open>nil\<close> is an \<open>option\<close>. Go's \<^verbatim>\<open>int\<close> is \<open>int\<close>: the only
  arithmetic on it, in \<^verbatim>\<open>dtoi\<close>, stays below \<open>2 ^ 28\<close> (lemma \<open>dtoi_for_bound\<close>).
  \<^verbatim>\<open>uint64\<close> is \<open>64 word\<close>.
\<close>

subsection \<open>Tokens and the syntax tree\<close>

text \<open>
  Modelled from the spec: the declarations of \<^verbatim>\<open>Token\<close>, \<^verbatim>\<open>Blamer\<close> and the syntax tree
  (\<^verbatim>\<open>RequestSyntax\<close>, the three target specs, the four actions) are not among the sources.
  They are reconstructed from the way the analyzer uses them and from the spec's section 6:
  a token exposes its literal text (\<^verbatim>\<open>Lexeme\<close>, quotes included) and a source position
  (\<^verbatim>\<open>Pos\<close>, kept in the text form that \<^verbatim>\<open>%s\<close> prints); a target spec is tagged
  all / one / versioned and carries tokens for name (\<^verbatim>\<open>What\<close>) and version (\<^verbatim>\<open>Ocn\<close>);
  Patch and Create carry a mapping from field-name token to value token. The token that
  a node's \<^verbatim>\<open>Blame()\<close> method returns is kept as a field of the node (\<open>\<dots>_tok\<close>).
  A \<^verbatim>\<open>map[*Token]*Token\<close> is the list of its entries; two distinct key tokens may have
  the same lexeme, since the keys are pointers.
\<close>

record Token =
  Lexeme :: string
  Pos :: string

type_synonym props = "(Token \<times> Token) list"

record TargetAllSpecSyntax =
  TargetAllSpec_tok :: Token

record TargetOneSpecSyntax =
  TargetOneSpec_tok :: Token
  TargetOneSpec_What :: Token

record TargetOcnSpecSyntax =
  TargetOcnSpec_tok :: Token
  TargetOcnSpec_What :: Token
  TargetOcnSpec_Ocn :: Token

text \<open>The dynamic type of \<^verbatim>\<open>req.Spec\<close>; \<open>SpecOther\<close> is any type the switches do not list
  (their \<^verbatim>\<open>default\<close> branch), with its type name and blame token.\<close>

datatype TargetSpecSyntax =
    SpecAll TargetAllSpecSyntax
  | SpecOne TargetOneSpecSyntax
  | SpecOcn TargetOcnSpecSyntax
  | SpecOther string Token

record PatchActionSyntax =
  PatchAction_tok :: Token
  PatchProps :: props

record CreateActionSyntax =
  CreateAction_tok :: Token
  CreateProps :: props

record GetActionSyntax =
  GetAction_tok :: Token

record DeleteActionSyntax =
  DeleteAction_tok :: Token

text \<open>The dynamic type of \<^verbatim>\<open>req.Action\<close>; \<open>ActOther\<close> is any value that none of the four
  cases of \<^verbatim>\<open>Analyze\<close> matches, with the text \<^verbatim>\<open>%T\<close> prints for it.\<close>

datatype ActionSyntax =
    ActPatch PatchActionSyntax
  | ActCreate CreateActionSyntax
  | ActGet GetActionSyntax
  | ActDelete DeleteActionSyntax
  | ActOther string

record RequestSyntax =
  Action :: ActionSyntax
  Spec :: TargetSpecSyntax

text \<open>A value of interface type \<^verbatim>\<open>Blamer\<close>: the analyzer stores tokens, target specs and
  actions in fields of that type.\<close>

datatype Blamer =
    BlameToken Token
  | BlameSpec TargetSpecSyntax
  | BlameAction ActionSyntax

fun Blame :: "Blamer \<Rightarrow> Token" where
  "Blame (BlameToken t) = t"
| "Blame (BlameSpec (SpecAll s)) = TargetAllSpec_tok s"
| "Blame (BlameSpec (SpecOne s)) = TargetOneSpec_tok s"
| "Blame (BlameSpec (SpecOcn s)) = TargetOcnSpec_tok s"
| "Blame (BlameSpec (SpecOther ty t)) = t"
| "Blame (BlameAction (ActPatch a)) = PatchAction_tok a"
| "Blame (BlameAction (ActCreate a)) = CreateAction_tok a"
| "Blame (BlameAction (ActGet a)) = GetAction_tok a"
| "Blame (BlameAction (ActDelete a)) = DeleteAction_tok a"
| "Blame (BlameAction (ActOther ty)) = \<lparr>Lexeme = [], Pos = []\<rparr>"

subsection \<open>Semantic types (sem\_types.go)\<close>

record TargetAll =
  TargetAll_Blamer :: Blamer

record TargetOne =
  TargetOne_Blamer :: Blamer
  What :: string

record TargetOcn =
  TargetOcn_Blamer :: Blamer
  TargetOcn_TargetOne :: TargetOne
  Ocn :: "64 word"

datatype Target =
    IsTargetAll TargetAll
  | IsTargetOne TargetOne
  | IsTargetOcn TargetOcn

text \<open>\<^verbatim>\<open>net.TCPAddr\<close>: \<open>IP = None\<close> is the nil slice.\<close>

record TCPAddr =
  IP :: "8 word list option"
  Port :: int

record AttrChange =
  AddrBlame :: "Blamer option"
  Addr :: "TCPAddr option"
  DbnameInBlame :: "Blamer option"
  DbnameIn :: string
  DbnameRewrittenBlame :: "Blamer option"
  DbnameRewritten :: string
  LockBlame :: "Blamer option"
  Lock :: bool

record PatchDirective =
  PatchDirective_Blamer :: Blamer
  PatchDirective_TargetOcn :: TargetOcn
  PatchDirective_Change :: AttrChange

record CreateDirective =
  CreateDirective_Blamer :: Blamer
  CreateDirective_TargetOne :: TargetOne
  CreateDirective_Change :: AttrChange

record DeleteDirective =
  DeleteDirective_Target :: Target

record GetDirective =
  GetDirective_Target :: Target

text \<open>
  A value of interface type \<^verbatim>\<open>Directive\<close>, as \<^verbatim>\<open>Analyze\<close> returns it. \<open>NilDirective\<close> is
  the nil interface. \<^verbatim>\<open>Analyze\<close> returns the pointer results of \<^verbatim>\<open>analyzePatch\<close>,
  \<^verbatim>\<open>analyzeCreate\<close> and \<^verbatim>\<open>analyzeGet\<close> converted to the interface, so a nil pointer of
  theirs arrives as \<open>PatchPtr None\<close>, \<open>CreatePtr None\<close> or \<open>GetPtr None\<close>: an interface
  value that holds a nil pointer, no directive.
\<close>

datatype Directive =
    NilDirective
  | PatchPtr "PatchDirective option"
  | CreatePtr "CreateDirective option"
  | GetPtr "GetDirective option"
  | DeletePtr "DeleteDirective option"

subsection \<open>Errors and panics\<close>

datatype NumErrKind = ErrSyntax | ErrRange

text \<open>
  Error values. \<open>ErrorString m\<close> is what \<^verbatim>\<open>errors.New\<close> and \<^verbatim>\<open>fmt.Errorf\<close> return, with
  its text; \<open>AddrError\<close> is \<^verbatim>\<open>&net.AddrError{Err, Addr}\<close>; \<open>NumError\<close> is
  \<^verbatim>\<open>*strconv.NumError\<close>; \<open>ErrBadTarget\<close> wraps an error as the struct of that name does.
  \<open>SemErr pos format args\<close> is the value \<^verbatim>\<open>semErrf\<close> returns,
  \<^verbatim>\<open>fmt.Errorf("%s: %s", pos, fmt.Sprintf(format, args...))\<close>: the model keeps the position,
  the format and the arguments apart instead of printing them.
\<close>

datatype err =
    ErrorString string
  | AddrError string string
  | NumError string string NumErrKind
  | SemErr string string "fmtArg list"
  | ErrBadTarget err
and fmtArg =
    ArgErr err
  | ArgSpec TargetSpecSyntax

datatype 'a outcome = Panic string | Return 'a

subsection \<open>The platform\<close>

text \<open>
  The Go standard library and runtime are not part of the repository; what the code uses
  of them is a parameter of the model: \<^verbatim>\<open>net.SplitHostPort\<close>, \<^verbatim>\<open>net.ParseIP\<close> (\<open>None\<close>
  is the nil result), \<^verbatim>\<open>net.LookupPort\<close>, \<^verbatim>\<open>strconv.ParseUint\<close> (with base and bit size),
  and the order in which a \<^verbatim>\<open>range\<close> loop visits the entries of a map, which the
  language leaves to the runtime.
\<close>

record platform =
  SplitHostPort :: "string \<Rightarrow> err + string \<times> string"
  ParseIP :: "string \<Rightarrow> 8 word list option"
  LookupPort :: "string \<Rightarrow> string \<Rightarrow> err + int"
  ParseUint :: "string \<Rightarrow> nat \<Rightarrow> nat \<Rightarrow> err + 64 word"
  rangeOrder :: "props \<Rightarrow> props"

subsection \<open>net\_help.go\<close>

definition big :: int where
  "big = 0xFFFFFF"

definition isDigit :: "char \<Rightarrow> bool" where
  "isDigit c = ((of_char (CHR ''0'') :: nat) \<le> of_char c \<and> (of_char c :: nat) \<le> of_char (CHR ''9''))"

definition digitVal :: "char \<Rightarrow> int" where
  "digitVal c = int (of_char c - of_char (CHR ''0''))"

text \<open>The \<^verbatim>\<open>for\<close> loop of \<^verbatim>\<open>dtoi\<close>, from index \<open>i\<close> with accumulator \<open>n\<close>: \<open>Inl i\<close> is
  the early \<^verbatim>\<open>return 0, i, false\<close>, \<open>Inr (n, i)\<close> the values at loop exit.\<close>

function dtoi_for :: "string \<Rightarrow> int \<Rightarrow> nat \<Rightarrow> nat + int \<times> nat" where
  "dtoi_for s n i =
     (if i < length s \<and> isDigit (s ! i) then
        (let n' = n * 10 + digitVal (s ! i) in
         if n' \<ge> big then Inl i else dtoi_for s n' (Suc i))
      else Inr (n, i))"
  by pat_completeness auto
termination
  by (relation "measure (\<lambda>(s, n, i). length s - i)") auto

declare dtoi_for.simps [simp del]

definition dtoi :: "string \<Rightarrow> nat \<Rightarrow> int \<times> nat \<times> bool" where
  "dtoi s i0 =
     (case dtoi_for s 0 i0 of
        Inl i \<Rightarrow> (0, i, False)
      | Inr (n, i) \<Rightarrow> if i = i0 then (0, i, False) else (n, i, True))"

definition hostPortToAddr :: "platform \<Rightarrow> string \<Rightarrow> string \<Rightarrow> err + TCPAddr" where
  "hostPortToAddr P network hostport =
     (case SplitHostPort P hostport of
        Inl e \<Rightarrow> Inl e
      | Inr (host, port) \<Rightarrow>
          (case (if host \<noteq> [] then
                   (case ParseIP P host of
                      None \<Rightarrow> Inl (ErrorString ''Invalid IP passed'')
                    | Some ip \<Rightarrow> Inr (Some ip))
                 else Inr None) of
             Inl e \<Rightarrow> Inl e
           | Inr addr \<Rightarrow>
               (case (case dtoi port 0 of
                        (p, i, ok) \<Rightarrow>
                          if \<not> ok \<or> i \<noteq> length port then LookupPort P network port
                          else Inr p) of
                  Inl e \<Rightarrow> Inl e
                | Inr p \<Rightarrow>
                    if p < 0 \<or> p > 0xFFFF then Inl (AddrError ''invalid port'' port)
                    else Inr \<lparr>IP = addr, Port = p\<rparr>)))"

subsection \<open>The analyzer\<close>

definition semErrf :: "Blamer \<Rightarrow> string \<Rightarrow> fmtArg list \<Rightarrow> err" where
  "semErrf blam format args = SemErr (Pos (Blame blam)) format args"

definition lockTrue :: string where
  "lockTrue = CHR 0x27 # ''true'' @ [CHR 0x27]"

definition lockFalse :: string where
  "lockFalse = CHR 0x27 # ''false'' @ [CHR 0x27]"

text \<open>The text of the lock error: \<^verbatim>\<open>%v\<close> prints a string as it is.\<close>

definition lockError :: "string \<Rightarrow> err" where
  "lockError lexeme =
     ErrorString (''Could not recognize lock literal '' @ lexeme @
       '', choose 'true' or 'false'' @ [CHR 0x27])"

text \<open>
  The body of the \<^verbatim>\<open>range\<close> loop of \<^verbatim>\<open>initAttrChange\<close>, over the entries in the order
  they are visited. The change is passed along and returned with the error, as the Go
  code updates it in place. The slice expression \<^verbatim>\<open>value.Lexeme[1 : len(value.Lexeme)-1]\<close>
  panics when the lexeme has fewer than two bytes, and an unlisted field name panics
  (the model's panic text gives the field name where \<^verbatim>\<open>%v\<close> prints the whole token).
  On a resolver error the assignment has already stored the nil address.
\<close>

fun initAttrChange_range :: "platform \<Rightarrow> AttrChange \<Rightarrow> props \<Rightarrow> (AttrChange \<times> err option) outcome" where
  "initAttrChange_range P change [] = Return (change, None)"
| "initAttrChange_range P change ((name, value) # rest) =
     (if Lexeme name = ''addr'' then
        (if length (Lexeme value) < 2 then Panic ''slice bounds out of range''
         else
           (case hostPortToAddr P ''tcp'' (take (length (Lexeme value) - 2) (drop 1 (Lexeme value))) of
              Inl e \<Rightarrow> Return (change\<lparr>Addr := None\<rparr>, Some e)
            | Inr a \<Rightarrow>
                initAttrChange_range P
                  (change\<lparr>Addr := Some a, AddrBlame := Some (BlameToken value)\<rparr>) rest))
      else if Lexeme name = ''dbnameIn'' then
        initAttrChange_range P
          (change\<lparr>DbnameIn := Lexeme value, DbnameInBlame := Some (BlameToken value)\<rparr>) rest
      else if Lexeme name = ''dbnameRewritten'' then
        initAttrChange_range P
          (change\<lparr>DbnameRewritten := Lexeme value,
                  DbnameRewrittenBlame := Some (BlameToken value)\<rparr>) rest
      else if Lexeme name = ''lock'' then
        (if Lexeme value = lockTrue then
           initAttrChange_range P (change\<lparr>Lock := True, LockBlame := Some (BlameToken value)\<rparr>) rest
         else if Lexeme value = lockFalse then
           initAttrChange_range P (change\<lparr>Lock := False, LockBlame := Some (BlameToken value)\<rparr>) rest
         else Return (change, Some (lockError (Lexeme value))))
      else Panic (''Unhandleable token: '' @ Lexeme name))"

definition initAttrChange :: "platform \<Rightarrow> AttrChange \<Rightarrow> props \<Rightarrow> (AttrChange \<times> err option) outcome" where
  "initAttrChange P change props = initAttrChange_range P change (rangeOrder P props)"

text \<open>The zero value of \<^verbatim>\<open>AttrChange\<close>, which a composite literal leaves in \<^verbatim>\<open>Change\<close>.\<close>

definition zeroAttrChange :: AttrChange where
  "zeroAttrChange =
     \<lparr>AddrBlame = None, Addr = None, DbnameInBlame = None, DbnameIn = [],
      DbnameRewrittenBlame = None, DbnameRewritten = [], LockBlame = None, Lock = False\<rparr>"

definition newPatchDirective ::
  "platform \<Rightarrow> TargetOcnSpecSyntax \<Rightarrow> 64 word \<Rightarrow> PatchActionSyntax \<Rightarrow>
     (PatchDirective option \<times> err option) outcome" where
  "newPatchDirective P ocnSpec ocnInt a =
     (let tOcn = \<lparr>TargetOcn_Blamer = BlameSpec (SpecOcn ocnSpec),
                  TargetOcn_TargetOne =
                    \<lparr>TargetOne_Blamer = BlameSpec (SpecOcn ocnSpec),
                     What = Lexeme (TargetOcnSpec_Ocn ocnSpec)\<rparr>,
                  Ocn = ocnInt\<rparr>;
          pd = \<lparr>PatchDirective_Blamer = BlameAction (ActPatch a),
                PatchDirective_TargetOcn = tOcn,
                PatchDirective_Change = zeroAttrChange\<rparr>
      in case initAttrChange P (PatchDirective_Change pd) (PatchProps a) of
           Panic m \<Rightarrow> Panic m
         | Return (change, Some e) \<Rightarrow> Return (None, Some e)
         | Return (change, None) \<Rightarrow> Return (Some (pd\<lparr>PatchDirective_Change := change\<rparr>), None))"

definition analyzePatch ::
  "platform \<Rightarrow> RequestSyntax \<Rightarrow> PatchActionSyntax \<Rightarrow> (PatchDirective option \<times> err option) outcome" where
  "analyzePatch P req a =
     (case Spec req of
        SpecOcn ocnSpec \<Rightarrow>
          (case ParseUint P (Lexeme (TargetOcnSpec_Ocn ocnSpec)) 10 64 of
             Inl e \<Rightarrow>
               Return (None, Some (semErrf (BlameToken (TargetOcnSpec_Ocn ocnSpec))
                                     ''Could not parse OCN, %v'' [ArgErr e]))
           | Inr ocnInt \<Rightarrow> newPatchDirective P ocnSpec ocnInt a)
      | _ \<Rightarrow>
          Return (None, Some (ErrBadTarget (semErrf (BlameSpec (Spec req))
                    ''Incorrect target type: expected TargetOcnSpecSyntax, got %T''
                    [ArgSpec (Spec req)]))))"

definition newCreateDirective ::
  "platform \<Rightarrow> TargetOneSpecSyntax \<Rightarrow> CreateActionSyntax \<Rightarrow>
     (CreateDirective option \<times> err option) outcome" where
  "newCreateDirective P spec a =
     (let tOne = \<lparr>TargetOne_Blamer = BlameSpec (SpecOne spec),
                  What = Lexeme (TargetOneSpec_What spec)\<rparr>;
          cd = \<lparr>CreateDirective_Blamer = BlameAction (ActCreate a),
                CreateDirective_TargetOne = tOne,
                CreateDirective_Change = zeroAttrChange\<rparr>
      in case initAttrChange P (CreateDirective_Change cd) (CreateProps a) of
           Panic m \<Rightarrow> Panic m
         | Return (change, Some e) \<Rightarrow> Return (None, Some e)
         | Return (change, None) \<Rightarrow> Return (Some (cd\<lparr>CreateDirective_Change := change\<rparr>), None))"

definition analyzeCreate ::
  "platform \<Rightarrow> RequestSyntax \<Rightarrow> CreateActionSyntax \<Rightarrow> (CreateDirective option \<times> err option) outcome" where
  "analyzeCreate P req a =
     (case Spec req of
        SpecOne oneSpec \<Rightarrow> newCreateDirective P oneSpec a
      | _ \<Rightarrow>
          Return (None, Some (ErrBadTarget (semErrf (BlameSpec (Spec req))
                    ''Incorrect target type: expected TargetOcnSpecSyntax, got %T''
                    [ArgSpec (Spec req)]))))"

definition analyzeGet :: "RequestSyntax \<Rightarrow> GetActionSyntax \<Rightarrow> GetDirective option \<times> err option" where
  "analyzeGet req a =
     (case Spec req of
        SpecAll t \<Rightarrow>
          (Some \<lparr>GetDirective_Target = IsTargetAll \<lparr>TargetAll_Blamer = BlameSpec (Spec req)\<rparr>\<rparr>, None)
      | SpecOne t \<Rightarrow>
          (Some \<lparr>GetDirective_Target =
                   IsTargetOne \<lparr>TargetOne_Blamer = BlameToken (TargetOneSpec_What t),
                                What = Lexeme (TargetOneSpec_What t)\<rparr>\<rparr>, None)
      | _ \<Rightarrow>
          (None, Some (ErrBadTarget (semErrf (BlameSpec (Spec req))
                    ''Incorrect target type: expected TargetOneSpecSyntax or TargetAllSpecSyntax, got %T''
                    [ArgSpec (Spec req)]))))"

definition Analyze :: "platform \<Rightarrow> RequestSyntax \<Rightarrow> (Directive \<times> err option) outcome" where
  "Analyze P req =
     (case Action req of
        ActPatch a \<Rightarrow>
          (case analyzePatch P req a of
             Panic m \<Rightarrow> Panic m
           | Return (d, e) \<Rightarrow> Return (PatchPtr d, e))
      | ActCreate a \<Rightarrow>
          (case analyzeCreate P req a of
             Panic m \<Rightarrow> Panic m
           | Return (d, e) \<Rightarrow> Return (CreatePtr d, e))
      | ActGet a \<Rightarrow> (case analyzeGet req a of (d, e) \<Rightarrow> Return (GetPtr d, e))
      | ActDelete a \<Rightarrow> Return (NilDirective, None)
      | ActOther ty \<Rightarrow>
          Panic (''Attempting to semantically analyze un-enumerated action type '' @ ty))"

subsection \<open>Notions the statements use\<close>

text \<open>
  The words of the specification about the port token: strict decimal parsing accepts a
  token when it is not empty, all of its characters are digits, and its value is below
  the magnitude bound; the value is read in base ten.
\<close>

definition dstep :: "int \<Rightarrow> char \<Rightarrow> int" where
  "dstep n c = n * 10 + digitVal c"

definition decimalValue :: "string \<Rightarrow> int" where
  "decimalValue port = foldl dstep 0 port"

definition strictDecimal :: "string \<Rightarrow> bool" where
  "strictDecimal port = (port \<noteq> [] \<and> list_all isDigit port \<and> decimalValue port < big)"

text \<open>The source position an error value carries: the one \<^verbatim>\<open>semErrf\<close> put into it,
  also when the error is wrapped as a bad-target error.\<close>

fun errPos :: "err \<Rightarrow> string option" where
  "errPos (SemErr pos format args) = Some pos"
| "errPos (ErrBadTarget e) = errPos e"
| "errPos (ErrorString m) = None"
| "errPos (AddrError m a) = None"
| "errPos (NumError f n k) = None"

text \<open>The property mapping of an action, if it has one.\<close>

definition propsOf :: "ActionSyntax \<Rightarrow> props" where
  "propsOf act =
     (case act of ActPatch a \<Rightarrow> PatchProps a | ActCreate a \<Rightarrow> CreateProps a | _ \<Rightarrow> [])"

text \<open>
  One visit of the \<^verbatim>\<open>range\<close> loop of \<^verbatim>\<open>initAttrChange\<close>, for the proofs about the order
  of visits: \<open>entryOk\<close> says that the visit of an entry neither returns an error nor
  panics, \<open>applyEntry\<close> is the change it then makes.
\<close>

definition entryOk :: "platform \<Rightarrow> Token \<times> Token \<Rightarrow> bool" where
  "entryOk P entry =
     (case entry of (name, value) \<Rightarrow>
        if Lexeme name = ''addr'' then
          \<not> length (Lexeme value) < 2 \<and>
          (case hostPortToAddr P ''tcp'' (take (length (Lexeme value) - 2) (drop 1 (Lexeme value))) of
             Inl e \<Rightarrow> False
           | Inr a \<Rightarrow> True)
        else if Lexeme name = ''dbnameIn'' then True
        else if Lexeme name = ''dbnameRewritten'' then True
        else if Lexeme name = ''lock'' then Lexeme value = lockTrue \<or> Lexeme value = lockFalse
        else False)"

definition applyEntry :: "platform \<Rightarrow> Token \<times> Token \<Rightarrow> AttrChange \<Rightarrow> AttrChange" where
  "applyEntry P entry change =
     (case entry of (name, value) \<Rightarrow>
        if Lexeme name = ''addr'' then
          (case hostPortToAddr P ''tcp'' (take (length (Lexeme value) - 2) (drop 1 (Lexeme value))) of
             Inl e \<Rightarrow> change
           | Inr a \<Rightarrow> change\<lparr>Addr := Some a, AddrBlame := Some (BlameToken value)\<rparr>)
        else if Lexeme name = ''dbnameIn'' then
          change\<lparr>DbnameIn := Lexeme value, DbnameInBlame := Some (BlameToken value)\<rparr>
        else if Lexeme name = ''dbnameRewritten'' then
          change\<lparr>DbnameRewritten := Lexeme value,
                  DbnameRewrittenBlame := Some (BlameToken value)\<rparr>
        else if Lexeme name = ''lock'' then
          change\<lparr>Lock := (Lexeme value = lockTrue), LockBlame := Some (BlameToken value)\<rparr>
        else change)"

subsection \<open>A platform and requests for the examples\<close>

text \<open>
  An instance of the platform for evaluating the model on concrete requests. It splits
  at the last colon and refuses a colon in the host (no bracketed literals), knows the
  IPv4 literal 10.0.0.5 (in the 16-byte form \<^verbatim>\<open>net.ParseIP\<close> returns) and no other,
  knows the service name \<^verbatim>\<open>postgresql\<close> for \<^verbatim>\<open>tcp\<close>, parses unsigned decimal numbers
  (whatever the base argument) up to \<open>2 ^ bitSize - 1\<close>, and visits a map in the order
  of its entry list.
\<close>

definition exampleSplitHostPort :: "string \<Rightarrow> err + string \<times> string" where
  "exampleSplitHostPort hostport =
     (if CHR '':'' \<notin> set hostport then Inl (AddrError ''missing port in address'' hostport)
      else
        (let port = rev (takeWhile (\<lambda>c. c \<noteq> CHR '':'') (rev hostport));
             host = take (length hostport - length port - 1) hostport
         in if CHR '':'' \<in> set host then Inl (AddrError ''too many colons in address'' hostport)
            else Inr (host, port)))"

definition exampleParseIP :: "string \<Rightarrow> 8 word list option" where
  "exampleParseIP host =
     (if host = ''10.0.0.5'' then Some [0, 0, 0, 0, 0, 0, 0, 0, 0, 0, 0xFF, 0xFF, 10, 0, 0, 5]
      else None)"

definition exampleLookupPort :: "string \<Rightarrow> string \<Rightarrow> err + int" where
  "exampleLookupPort network service =
     (if network = ''tcp'' \<and> service = ''postgresql'' then Inr 5432
      else Inl (AddrError ''unknown port'' (network @ ''/'' @ service)))"

fun exampleParseUint_digits :: "nat \<Rightarrow> nat \<Rightarrow> string \<Rightarrow> NumErrKind + nat" where
  "exampleParseUint_digits maxVal n [] = Inr n"
| "exampleParseUint_digits maxVal n (d # ds) =
     (if \<not> isDigit d then Inl ErrSyntax
      else
        (let n1 = n * 10 + nat (digitVal d)
         in if n1 > maxVal then Inl ErrRange else exampleParseUint_digits maxVal n1 ds))"

definition exampleParseUint :: "string \<Rightarrow> nat \<Rightarrow> nat \<Rightarrow> err + 64 word" where
  "exampleParseUint s base bitSize =
     (if s = [] then Inl (NumError ''ParseUint'' s ErrSyntax)
      else
        (case exampleParseUint_digits (2 ^ bitSize - 1) 0 s of
           Inl k \<Rightarrow> Inl (NumError ''ParseUint'' s k)
         | Inr n \<Rightarrow> Inr (of_nat n)))"

definition examplePlatform :: platform where
  "examplePlatform =
     \<lparr>SplitHostPort = exampleSplitHostPort, ParseIP = exampleParseIP,
      LookupPort = exampleLookupPort, ParseUint = exampleParseUint,
      rangeOrder = (\<lambda>ps. ps)\<rparr>"

definition tok :: "string \<Rightarrow> string \<Rightarrow> Token" where
  "tok lexeme pos = \<lparr>Lexeme = lexeme, Pos = pos\<rparr>"

text \<open>A single-quoted literal, quotes included, as the lexer leaves it in a lexeme.\<close>

definition quoted :: "string \<Rightarrow> string" where
  "quoted s = CHR 0x27 # s @ [CHR 0x27]"

text \<open>The target \<^verbatim>\<open>fdr\<close> at version 7.\<close>

definition exampleOcnSpec :: TargetOcnSpecSyntax where
  "exampleOcnSpec =
     \<lparr>TargetOcnSpec_tok = tok ''route'' ''1:2'',
      TargetOcnSpec_What = tok ''fdr'' ''1:8'',
      TargetOcnSpec_Ocn = tok ''7'' ''1:14''\<rparr>"

definition examplePatch :: "props \<Rightarrow> RequestSyntax" where
  "examplePatch ps =
     \<lparr>Action = ActPatch \<lparr>PatchAction_tok = tok ''patch'' ''1:17'', PatchProps = ps\<rparr>,
      Spec = SpecOcn exampleOcnSpec\<rparr>"

section \<open>Properties\<close>

subsection \<open>Target shapes\<close>

text \<open>
  C2. A Create request whose target is the All shape or the Ocn shape, and a Get request
  whose target is the Ocn shape, get a bad-target error and no directive: the error is
  an \<open>ErrBadTarget\<close> built by \<^verbatim>\<open>semErrf\<close> at the position of the target spec, and the
  directive returned with it is the interface value holding a nil pointer.
\<close>

theorem Analyze_bad_target:
  "(\<exists>format.
      Analyze P \<lparr>Action = ActCreate a, Spec = SpecAll allSpec\<rparr> =
        Return (CreatePtr None,
          Some (ErrBadTarget (SemErr (Pos (TargetAllSpec_tok allSpec)) format
                  [ArgSpec (SpecAll allSpec)])))) \<and>
   (\<exists>format.
      Analyze P \<lparr>Action = ActCreate a, Spec = SpecOcn ocnSpec\<rparr> =
        Return (CreatePtr None,
          Some (ErrBadTarget (SemErr (Pos (TargetOcnSpec_tok ocnSpec)) format
                  [ArgSpec (SpecOcn ocnSpec)])))) \<and>
   (\<exists>format.
      Analyze P \<lparr>Action = ActGet g, Spec = SpecOcn ocnSpec\<rparr> =
        Return (GetPtr None,
          Some (ErrBadTarget (SemErr (Pos (TargetOcnSpec_tok ocnSpec)) format
                  [ArgSpec (SpecOcn ocnSpec)]))))"
  by (simp add: Analyze_def analyzeCreate_def analyzeGet_def semErrf_def)

text \<open>
  C3 (what the code does). For a Delete request \<^verbatim>\<open>Analyze\<close> returns the nil interface
  and a nil error, whatever the target shape: it builds no Delete directive.
\<close>

theorem Analyze_Delete_returns_nil:
  "Analyze P \<lparr>Action = ActDelete a, Spec = spec\<rparr> = Return (NilDirective, None)"
  by (simp add: Analyze_def)

text \<open>
  C8 (what the code does). The bad-target error of a Create request names
  \<^verbatim>\<open>TargetOcnSpecSyntax\<close> as the expected shape, also when an Ocn target was supplied;
  the One shape, the only one Create accepts, is not named.
\<close>

theorem analyzeCreate_expects_Ocn:
  "Analyze P \<lparr>Action = ActCreate a, Spec = SpecOcn ocnSpec\<rparr> =
     Return (CreatePtr None,
       Some (ErrBadTarget (SemErr (Pos (TargetOcnSpec_tok ocnSpec))
               ''Incorrect target type: expected TargetOcnSpecSyntax, got %T''
               [ArgSpec (SpecOcn ocnSpec)]))) \<and>
   Analyze P \<lparr>Action = ActCreate a, Spec = SpecAll allSpec\<rparr> =
     Return (CreatePtr None,
       Some (ErrBadTarget (SemErr (Pos (TargetAllSpec_tok allSpec))
               ''Incorrect target type: expected TargetOcnSpecSyntax, got %T''
               [ArgSpec (SpecAll allSpec)])))"
  by (simp add: Analyze_def analyzeCreate_def semErrf_def)

subsection \<open>The decimal loop\<close>

lemma digitVal_nonneg: "0 \<le> digitVal c"
  by (simp add: digitVal_def)

lemma foldl_dstep_mono: "0 \<le> n \<Longrightarrow> n \<le> foldl dstep n cs"
proof (induction cs arbitrary: n)
  case Nil then show ?case by simp
next
  case (Cons c cs)
  have "0 \<le> dstep n c" "n \<le> dstep n c" using Cons.prems digitVal_nonneg[of c] by (simp_all add: dstep_def)
  with Cons.IH[of "dstep n c"] show ?case by simp
qed

lemma dtoi_for_all_digits:
  "0 \<le> n \<Longrightarrow> i \<le> length s \<Longrightarrow> list_all isDigit (drop i s) \<Longrightarrow> foldl dstep n (drop i s) < big
   \<Longrightarrow> dtoi_for s n i = Inr (foldl dstep n (drop i s), length s)"
proof (induction s n i rule: dtoi_for.induct)
  case (1 s n i)
  show ?case
  proof (cases "i < length s")
    case False
    with "1.prems" show ?thesis by (simp add: dtoi_for.simps)
  next
    case True
    then have d: "drop i s = s ! i # drop (Suc i) s" by (simp add: Cons_nth_drop_Suc)
    let ?n = "n * 10 + digitVal (s ! i)"
    have dig: "isDigit (s ! i)" and rest: "list_all isDigit (drop (Suc i) s)"
      using "1.prems"(3) d by simp_all
    have f: "foldl dstep n (drop i s) = foldl dstep ?n (drop (Suc i) s)"
      by (simp add: d dstep_def)
    have nn: "0 \<le> ?n" using "1.prems"(1) digitVal_nonneg[of "s ! i"] by simp
    have "?n \<le> foldl dstep ?n (drop (Suc i) s)" using nn by (rule foldl_dstep_mono)
    with f "1.prems"(4) have lt: "\<not> ?n \<ge> big" by simp
    have "dtoi_for s ?n (Suc i) = Inr (foldl dstep ?n (drop (Suc i) s), length s)"
      using "1.IH"[OF _ refl lt nn] True dig rest f "1.prems"(4) by simp
    then show ?thesis using True dig lt f by (subst dtoi_for.simps) (simp add: Let_def)
  qed
qed

lemma dtoi_for_to_end:
  "dtoi_for s n i = Inr (m, length s) \<Longrightarrow> i \<le> length s \<Longrightarrow>
     list_all isDigit (drop i s) \<and> m = foldl dstep n (drop i s) \<and> (i < length s \<longrightarrow> m < big)"
proof (induction s n i rule: dtoi_for.induct)
  case (1 s n i)
  show ?case
  proof (cases "i < length s \<and> isDigit (s ! i)")
    case False
    with "1.prems" show ?thesis by (simp add: dtoi_for.simps)
  next
    case True
    then have d: "drop i s = s ! i # drop (Suc i) s" by (simp add: Cons_nth_drop_Suc)
    let ?n = "n * 10 + digitVal (s ! i)"
    from "1.prems"(1) True have lt: "\<not> ?n \<ge> big" and rec: "dtoi_for s ?n (Suc i) = Inr (m, length s)"
      by (subst (asm) dtoi_for.simps, simp add: Let_def split: if_splits)+
    have le: "Suc i \<le> length s" using True by simp
    note ih0 = "1.IH"[OF True refl lt rec le]
    have ih: "list_all isDigit (drop (Suc i) s)" "m = foldl dstep ?n (drop (Suc i) s)"
      "Suc i < length s \<longrightarrow> m < big" using ih0 by blast+
    have "m < big"
    proof (cases "Suc i < length s")
      case True with ih show ?thesis by simp
    next
      case False
      with True have "drop (Suc i) s = []" by simp
      with ih(2) lt show ?thesis by simp
    qed
    then have "foldl dstep ?n (drop (Suc i) s) < big" using ih(2) by simp
    moreover have "foldl dstep n (drop i s) = foldl dstep ?n (drop (Suc i) s)"
      by (simp add: d dstep_def)
    ultimately show ?thesis using ih(1,2) True by (simp add: d)
  qed
qed

lemma dtoi_strict: "strictDecimal port \<Longrightarrow> dtoi port 0 = (decimalValue port, length port, True)"
  using dtoi_for_all_digits[of 0 0 port]
  by (simp add: strictDecimal_def decimalValue_def dtoi_def)

lemma dtoi_not_strict:
  assumes "\<not> strictDecimal port" and "dtoi port 0 = (p, i, ok)"
  shows "\<not> ok \<or> i \<noteq> length port"
proof (rule ccontr)
  assume "\<not> (\<not> ok \<or> i \<noteq> length port)"
  then have ok: "ok" and i: "i = length port" by simp_all
  from assms(2) ok i have "dtoi_for port 0 0 = Inr (p, length port)" and ne: "length port \<noteq> 0"
    by (auto simp: dtoi_def split: sum.splits prod.splits if_splits)
  from dtoi_for_to_end[OF this(1)] ne have "strictDecimal port"
    by (auto simp: strictDecimal_def decimalValue_def)
  with assms(1) show False by simp
qed

lemma dtoi_for_bound:
  "0 \<le> n \<Longrightarrow> n < big \<Longrightarrow> isDigit c \<Longrightarrow> 0 \<le> n * 10 + digitVal c \<and> n * 10 + digitVal c < 2 ^ 28"
  by (auto simp: big_def isDigit_def digitVal_def)

text \<open>The port step of \<^verbatim>\<open>hostPortToAddr\<close>, in the words of the specification.\<close>

lemma port_step:
  "(case dtoi port 0 of (p, i, ok) \<Rightarrow> if \<not> ok \<or> i \<noteq> length port then LookupPort P network port else Inr p)
   = (if strictDecimal port then Inr (decimalValue port) else LookupPort P network port)"
proof (cases "strictDecimal port")
  case True
  then show ?thesis by (simp add: dtoi_strict)
next
  case False
  obtain p i ok where d: "dtoi port 0 = (p, i, ok)" by (cases "dtoi port 0") auto
  from dtoi_not_strict[OF False d] show ?thesis using False d by auto
qed

text \<open>The example platform on some addresses.\<close>

lemma example_split_literal:
  "SplitHostPort examplePlatform ''10.0.0.5:5432'' = Inr (''10.0.0.5'', ''5432'')"
  by (simp add: examplePlatform_def exampleSplitHostPort_def)

lemma example_split_hostname:
  "SplitHostPort examplePlatform ''db.example.com:5432'' = Inr (''db.example.com'', ''5432'')"
  by (simp add: examplePlatform_def exampleSplitHostPort_def)

lemma example_split_empty_host:
  "SplitHostPort examplePlatform '':5432'' = Inr ([], ''5432'')"
  "SplitHostPort examplePlatform '':70000'' = Inr ([], ''70000'')"
  "SplitHostPort examplePlatform '':postgresql'' = Inr ([], ''postgresql'')"
  by (simp_all add: examplePlatform_def exampleSplitHostPort_def)

lemma example_strict:
  "strictDecimal ''5432''" "decimalValue ''5432'' = 5432"
  "strictDecimal ''70000''" "decimalValue ''70000'' = 70000"
  "\<not> strictDecimal ''postgresql''"
  by (simp_all add: strictDecimal_def decimalValue_def dstep_def digitVal_def isDigit_def big_def)

subsection \<open>The endpoint address resolver\<close>

text \<open>
  C6. When the host part is not empty and \<^verbatim>\<open>net.ParseIP\<close> does not accept it as a literal
  address, \<^verbatim>\<open>hostPortToAddr\<close> returns the error "Invalid IP passed" and no address. The
  platform has no operation that resolves a host name, and the result is the same
  whatever the port lookup would answer: the function returns before the port is looked at.
\<close>

theorem hostPortToAddr_rejects_hostname:
  assumes "SplitHostPort P hostport = Inr (host, port)" and "host \<noteq> []" and "ParseIP P host = None"
  shows "hostPortToAddr (P\<lparr>LookupPort := lookup\<rparr>) network hostport = Inl (ErrorString ''Invalid IP passed'')"
  using assms by (simp add: hostPortToAddr_def)

theorem hostPortToAddr_rejects_hostname_witness:
  "SplitHostPort examplePlatform ''db.example.com:5432'' = Inr (''db.example.com'', ''5432'') \<and>
   ''db.example.com'' \<noteq> [] \<and>
   ParseIP examplePlatform ''db.example.com'' = None \<and>
   hostPortToAddr (examplePlatform\<lparr>LookupPort := \<lambda>network service. Inr 5432\<rparr>) ''tcp''
     ''db.example.com:5432'' = Inl (ErrorString ''Invalid IP passed'')"
proof -
  have ip: "ParseIP examplePlatform ''db.example.com'' = None"
    by (simp add: examplePlatform_def exampleParseIP_def)
  have ne: "''db.example.com'' \<noteq> []" by simp
  from hostPortToAddr_rejects_hostname [OF example_split_hostname ne ip]
  show ?thesis using example_split_hostname ip by simp
qed

text \<open>
  C7. Once host and port are split and the host is accepted, \<^verbatim>\<open>hostPortToAddr\<close> takes the
  port from strict decimal parsing when the token is not empty, all digits and below the
  magnitude bound (then no lookup is consulted), and from the service-name lookup for the
  given network otherwise; it fails with the lookup's error when that fails; a candidate
  port outside 0..65535 is the port-range error \<^verbatim>\<open>AddrError{"invalid port", port}\<close>. And
  whenever \<^verbatim>\<open>hostPortToAddr\<close> returns an address, its port lies in 0..65535. The Attribute
  Change Builder calls it with the network \<^verbatim>\<open>tcp\<close>.
\<close>

theorem hostPortToAddr_port:
  "(SplitHostPort P hostport = Inr (host, port) \<and> (host = [] \<or> ParseIP P host \<noteq> None) \<longrightarrow>
      hostPortToAddr P network hostport =
        (case (if strictDecimal port then Inr (decimalValue port) else LookupPort P network port) of
           Inl e \<Rightarrow> Inl e
         | Inr p \<Rightarrow>
             if 0 \<le> p \<and> p \<le> 65535
             then Inr \<lparr>IP = (if host = [] then None else ParseIP P host), Port = p\<rparr>
             else Inl (AddrError ''invalid port'' port))) \<and>
   (hostPortToAddr P network hostport = Inr a \<longrightarrow> 0 \<le> Port a \<and> Port a \<le> 65535)"
proof (intro conjI impI)
  assume h: "SplitHostPort P hostport = Inr (host, port) \<and> (host = [] \<or> ParseIP P host \<noteq> None)"
  then show "hostPortToAddr P network hostport =
        (case (if strictDecimal port then Inr (decimalValue port) else LookupPort P network port) of
           Inl e \<Rightarrow> Inl e
         | Inr p \<Rightarrow>
             if 0 \<le> p \<and> p \<le> 65535
             then Inr \<lparr>IP = (if host = [] then None else ParseIP P host), Port = p\<rparr>
             else Inl (AddrError ''invalid port'' port))"
    unfolding hostPortToAddr_def port_step
    by (auto split: sum.splits option.splits)
next
  assume "hostPortToAddr P network hostport = Inr a"
  then show "0 \<le> Port a" "Port a \<le> 65535"
    unfolding hostPortToAddr_def port_step
    by (auto split: sum.splits option.splits prod.splits if_splits)
qed

theorem hostPortToAddr_port_witness:
  "SplitHostPort examplePlatform ''10.0.0.5:5432'' = Inr (''10.0.0.5'', ''5432'') \<and>
   ParseIP examplePlatform ''10.0.0.5'' \<noteq> None \<and>
   strictDecimal ''5432'' \<and>
   hostPortToAddr examplePlatform ''tcp'' ''10.0.0.5:5432'' =
     Inr \<lparr>IP = Some [0, 0, 0, 0, 0, 0, 0, 0, 0, 0, 0xFF, 0xFF, 10, 0, 0, 5], Port = 5432\<rparr> \<and>
   strictDecimal ''70000'' \<and>
   hostPortToAddr examplePlatform ''tcp'' '':70000'' = Inl (AddrError ''invalid port'' ''70000'') \<and>
   \<not> strictDecimal ''postgresql'' \<and>
   LookupPort examplePlatform ''tcp'' ''postgresql'' = Inr 5432 \<and>
   hostPortToAddr examplePlatform ''tcp'' '':postgresql'' = Inr \<lparr>IP = None, Port = 5432\<rparr>"
proof -
  have ip: "ParseIP examplePlatform ''10.0.0.5'' =
      Some [0, 0, 0, 0, 0, 0, 0, 0, 0, 0, 0xFF, 0xFF, 10, 0, 0, 5]"
    by (simp add: examplePlatform_def exampleParseIP_def)
  have lk: "LookupPort examplePlatform ''tcp'' ''postgresql'' = Inr 5432"
    by (simp add: examplePlatform_def exampleLookupPort_def)
  have a: "hostPortToAddr examplePlatform ''tcp'' ''10.0.0.5:5432'' =
      Inr \<lparr>IP = Some [0, 0, 0, 0, 0, 0, 0, 0, 0, 0, 0xFF, 0xFF, 10, 0, 0, 5], Port = 5432\<rparr>"
    using hostPortToAddr_port [of examplePlatform "''10.0.0.5:5432''" "''10.0.0.5''" "''5432''" "''tcp''"]
      example_split_literal ip example_strict by simp
  have b: "hostPortToAddr examplePlatform ''tcp'' '':70000'' = Inl (AddrError ''invalid port'' ''70000'')"
    using hostPortToAddr_port [of examplePlatform "'':70000''" "[]" "''70000''" "''tcp''"]
      example_split_empty_host example_strict by simp
  have c: "hostPortToAddr examplePlatform ''tcp'' '':postgresql'' = Inr \<lparr>IP = None, Port = 5432\<rparr>"
    using hostPortToAddr_port [of examplePlatform "'':postgresql''" "[]" "''postgresql''" "''tcp''"]
      example_split_empty_host example_strict lk by simp
  show ?thesis using a b c example_split_literal ip lk example_strict by simp
qed

text \<open>
  C10. When the host part is empty and the port is valid (strict decimal parsing or the
  lookup gives a port in 0..65535), \<^verbatim>\<open>hostPortToAddr\<close> returns an address whose IP is
  nil and whose port is that port, whatever \<^verbatim>\<open>net.ParseIP\<close> would answer: the literal
  check is skipped.
\<close>

theorem hostPortToAddr_empty_host:
  assumes "SplitHostPort P hostport = Inr ([], port)"
    and "(if strictDecimal port then Inr (decimalValue port) else LookupPort P network port) = Inr p"
    and "0 \<le> p" and "p \<le> 65535"
  shows "hostPortToAddr (P\<lparr>ParseIP := parseIP\<rparr>) network hostport = Inr \<lparr>IP = None, Port = p\<rparr>"
proof -
  let ?P = "P\<lparr>ParseIP := parseIP\<rparr>"
  have "(if strictDecimal port then Inr (decimalValue port) else LookupPort ?P network port) = Inr p"
    using assms(2) by (cases "strictDecimal port") simp_all
  moreover have "SplitHostPort ?P hostport = Inr ([], port)"
    using assms(1) by simp
  ultimately show ?thesis
    unfolding hostPortToAddr_def port_step using assms(3,4) by simp
qed

theorem hostPortToAddr_empty_host_witness:
  "SplitHostPort examplePlatform '':5432'' = Inr ([], ''5432'') \<and>
   strictDecimal ''5432'' \<and> decimalValue ''5432'' = 5432 \<and>
   hostPortToAddr (examplePlatform\<lparr>ParseIP := \<lambda>host. None\<rparr>) ''tcp'' '':5432'' =
     Inr \<lparr>IP = None, Port = 5432\<rparr>"
proof -
  have "(if strictDecimal ''5432'' then Inr (decimalValue ''5432'')
         else LookupPort examplePlatform ''tcp'' ''5432'') = Inr 5432"
    using example_strict by simp
  from hostPortToAddr_empty_host [OF example_split_empty_host(1) this]
  show ?thesis using example_split_empty_host(1) example_strict by simp
qed

subsection \<open>The attribute change builder\<close>

text \<open>
  The loop of \<^verbatim>\<open>initAttrChange\<close> visits an accepted entry by applying its change, and
  returns an \<^verbatim>\<open>AttrChange\<close> without error exactly when every entry is accepted.
\<close>

lemma lockTrue_neq_lockFalse: "lockTrue \<noteq> lockFalse"
  by (simp add: lockTrue_def lockFalse_def)

lemma initAttrChange_range_Cons_ok:
  "entryOk P x \<Longrightarrow> initAttrChange_range P c (x # rest) = initAttrChange_range P (applyEntry P x c) rest"
proof -
  assume ok: "entryOk P x"
  obtain n v where x: "x = (n, v)" by (cases x)
  consider (addr) "Lexeme n = ''addr''" | (dbin) "Lexeme n = ''dbnameIn''"
    | (dbrw) "Lexeme n = ''dbnameRewritten''" | (lock) "Lexeme n = ''lock''"
    | (other) "Lexeme n \<noteq> ''addr''" "Lexeme n \<noteq> ''dbnameIn''" "Lexeme n \<noteq> ''dbnameRewritten''"
        "Lexeme n \<noteq> ''lock''"
    by blast
  then show ?thesis
  proof cases
    case addr
    with ok show ?thesis
      unfolding x by (simp add: entryOk_def applyEntry_def split: sum.splits)
  next
    case dbin
    then show ?thesis unfolding x by (simp add: applyEntry_def)
  next
    case dbrw
    then show ?thesis unfolding x by (simp add: applyEntry_def)
  next
    case lock
    with ok show ?thesis
      unfolding x by (auto simp: entryOk_def applyEntry_def lockTrue_neq_lockFalse)
  next
    case other
    with ok show ?thesis unfolding x by (simp add: entryOk_def)
  qed
qed

lemma initAttrChange_range_Cons_not_ok:
  "\<not> entryOk P x \<Longrightarrow> initAttrChange_range P c (x # rest) \<noteq> Return (c', None)"
proof -
  assume nok: "\<not> entryOk P x"
  obtain n v where x: "x = (n, v)" by (cases x)
  consider (addr) "Lexeme n = ''addr''" | (dbin) "Lexeme n = ''dbnameIn''"
    | (dbrw) "Lexeme n = ''dbnameRewritten''" | (lock) "Lexeme n = ''lock''"
    | (other) "Lexeme n \<noteq> ''addr''" "Lexeme n \<noteq> ''dbnameIn''" "Lexeme n \<noteq> ''dbnameRewritten''"
        "Lexeme n \<noteq> ''lock''"
    by blast
  then show ?thesis
  proof cases
    case addr
    with nok show ?thesis
      unfolding x by (simp add: entryOk_def split: sum.splits)
  next
    case dbin
    with nok show ?thesis unfolding x by (simp add: entryOk_def)
  next
    case dbrw
    with nok show ?thesis unfolding x by (simp add: entryOk_def)
  next
    case lock
    with nok show ?thesis
      unfolding x by (simp add: entryOk_def)
  next
    case other
    then show ?thesis unfolding x by simp
  qed
qed

lemma initAttrChange_range_success:
  "initAttrChange_range P c xs = Return (c', None) \<longleftrightarrow>
     list_all (entryOk P) xs \<and> c' = fold (applyEntry P) xs c"
proof (induction xs arbitrary: c)
  case Nil
  show ?case by auto
next
  case (Cons x xs)
  show ?case
  proof (cases "entryOk P x")
    case True
    then show ?thesis by (simp add: initAttrChange_range_Cons_ok Cons.IH)
  next
    case False
    then show ?thesis by (simp add: initAttrChange_range_Cons_not_ok)
  qed
qed

lemma initAttrChange_range_append:
  "initAttrChange_range P c (xs @ ys) =
     (case initAttrChange_range P c xs of
        Panic m \<Rightarrow> Panic m
      | Return (c1, Some e) \<Rightarrow> Return (c1, Some e)
      | Return (c1, None) \<Rightarrow> initAttrChange_range P c1 ys)"
proof (induction xs arbitrary: c)
  case Nil
  show ?case by simp
next
  case (Cons x xs)
  obtain n v where x: "x = (n, v)" by (cases x)
  show ?case unfolding x by (simp add: Cons.IH split: sum.splits)
qed

text \<open>
  The changes of two entries with different field names commute, so the result of a
  successful run over entries with pairwise different names does not depend on the order.
\<close>

lemma applyEntry_fields:
  "Addr (applyEntry P (n, v) c) =
     (if Lexeme n = ''addr'' then
        (case hostPortToAddr P ''tcp'' (take (length (Lexeme v) - 2) (drop 1 (Lexeme v))) of
           Inl e \<Rightarrow> Addr c | Inr a \<Rightarrow> Some a)
      else Addr c)"
  "AddrBlame (applyEntry P (n, v) c) =
     (if Lexeme n = ''addr'' then
        (case hostPortToAddr P ''tcp'' (take (length (Lexeme v) - 2) (drop 1 (Lexeme v))) of
           Inl e \<Rightarrow> AddrBlame c | Inr a \<Rightarrow> Some (BlameToken v))
      else AddrBlame c)"
  "DbnameIn (applyEntry P (n, v) c) = (if Lexeme n = ''dbnameIn'' then Lexeme v else DbnameIn c)"
  "DbnameInBlame (applyEntry P (n, v) c) =
     (if Lexeme n = ''dbnameIn'' then Some (BlameToken v) else DbnameInBlame c)"
  "DbnameRewritten (applyEntry P (n, v) c) =
     (if Lexeme n = ''dbnameRewritten'' then Lexeme v else DbnameRewritten c)"
  "DbnameRewrittenBlame (applyEntry P (n, v) c) =
     (if Lexeme n = ''dbnameRewritten'' then Some (BlameToken v) else DbnameRewrittenBlame c)"
  "Lock (applyEntry P (n, v) c) = (if Lexeme n = ''lock'' then Lexeme v = lockTrue else Lock c)"
  "LockBlame (applyEntry P (n, v) c) =
     (if Lexeme n = ''lock'' then Some (BlameToken v) else LockBlame c)"
  "AttrChange.more (applyEntry P (n, v) c) = AttrChange.more c"
  by (simp_all add: applyEntry_def split: sum.splits)

lemma applyEntry_commute:
  assumes "Lexeme (fst x) \<noteq> Lexeme (fst y)"
  shows "applyEntry P x (applyEntry P y c) = applyEntry P y (applyEntry P x c)"
proof -
  obtain n v where x: "x = (n, v)" by (cases x)
  obtain m w where y: "y = (m, w)" by (cases y)
  from assms have ne: "Lexeme n \<noteq> Lexeme m" by (simp add: x y)
  show ?thesis
    unfolding x y
  proof (rule AttrChange.equality)
    show "Addr (applyEntry P (n, v) (applyEntry P (m, w) c)) = Addr (applyEntry P (m, w) (applyEntry P (n, v) c))"
      using ne by (auto simp: applyEntry_fields split: sum.splits)
    show "AddrBlame (applyEntry P (n, v) (applyEntry P (m, w) c)) = AddrBlame (applyEntry P (m, w) (applyEntry P (n, v) c))"
      using ne by (auto simp: applyEntry_fields split: sum.splits)
    show "DbnameIn (applyEntry P (n, v) (applyEntry P (m, w) c)) = DbnameIn (applyEntry P (m, w) (applyEntry P (n, v) c))"
      using ne by (auto simp: applyEntry_fields)
    show "DbnameInBlame (applyEntry P (n, v) (applyEntry P (m, w) c)) = DbnameInBlame (applyEntry P (m, w) (applyEntry P (n, v) c))"
      using ne by (auto simp: applyEntry_fields)
    show "DbnameRewritten (applyEntry P (n, v) (applyEntry P (m, w) c)) = DbnameRewritten (applyEntry P (m, w) (applyEntry P (n, v) c))"
      using ne by (auto simp: applyEntry_fields)
    show "DbnameRewrittenBlame (applyEntry P (n, v) (applyEntry P (m, w) c)) = DbnameRewrittenBlame (applyEntry P (m, w) (applyEntry P (n, v) c))"
      using ne by (auto simp: applyEntry_fields)
    show "Lock (applyEntry P (n, v) (applyEntry P (m, w) c)) = Lock (applyEntry P (m, w) (applyEntry P (n, v) c))"
      using ne by (auto simp: applyEntry_fields)
    show "LockBlame (applyEntry P (n, v) (applyEntry P (m, w) c)) = LockBlame (applyEntry P (m, w) (applyEntry P (n, v) c))"
      using ne by (auto simp: applyEntry_fields)
    show "AttrChange.more (applyEntry P (n, v) (applyEntry P (m, w) c)) = AttrChange.more (applyEntry P (m, w) (applyEntry P (n, v) c))"
      by (simp add: applyEntry_fields)
  qed
qed

lemma fold_applyEntry_perm:
  assumes "distinct (map (\<lambda>(n, v). Lexeme n) xs)" and "mset xs = mset ys"
  shows "fold (applyEntry P) xs = fold (applyEntry P) ys"
proof (rule fold_multiset_equiv [OF _ assms(2)])
  fix x y
  assume xy: "x \<in> set xs" "y \<in> set xs"
  show "applyEntry P x \<circ> applyEntry P y = applyEntry P y \<circ> applyEntry P x"
  proof (cases "x = y")
    case True
    then show ?thesis by simp
  next
    case False
    from assms(1) have "inj_on (\<lambda>(n, v). Lexeme n) (set xs)"
      by (simp add: distinct_map)
    with xy False have "(\<lambda>(n, v). Lexeme n) x \<noteq> (\<lambda>(n, v). Lexeme n) y"
      by (auto dest: inj_onD)
    then have "Lexeme (fst x) \<noteq> Lexeme (fst y)"
      by (simp add: case_prod_beta)
    then show ?thesis
      by (auto simp: fun_eq_iff intro: applyEntry_commute)
  qed
qed

lemma initAttrChange_range_perm:
  assumes "distinct (map (\<lambda>(n, v). Lexeme n) xs)" and "mset xs = mset ys"
    and "initAttrChange_range P c xs = Return (c', None)"
  shows "initAttrChange_range P c ys = Return (c', None)"
proof -
  from assms(3) have ok: "list_all (entryOk P) xs" and c': "c' = fold (applyEntry P) xs c"
    by (simp_all add: initAttrChange_range_success)
  from assms(2) have "set xs = set ys" by (rule mset_eq_setD)
  with ok have "list_all (entryOk P) ys" by (simp add: list_all_iff)
  moreover from c' fold_applyEntry_perm [OF assms(1,2)] have "c' = fold (applyEntry P) ys c"
    by simp
  ultimately show ?thesis by (simp add: initAttrChange_range_success)
qed

lemma hostPortToAddr_rangeOrder:
  "hostPortToAddr (P\<lparr>rangeOrder := order\<rparr>) network s = hostPortToAddr P network s"
  by (simp add: hostPortToAddr_def cong: sum.case_cong option.case_cong prod.case_cong if_cong)

lemma initAttrChange_range_rangeOrder:
  "initAttrChange_range (P\<lparr>rangeOrder := order\<rparr>) c xs = initAttrChange_range P c xs"
proof (induction xs arbitrary: c)
  case Nil
  show ?case by simp
next
  case (Cons x xs)
  obtain n v where x: "x = (n, v)" by (cases x)
  show ?case
    unfolding x
    by (simp add: Cons.IH hostPortToAddr_rangeOrder cong: sum.case_cong if_cong)
qed

lemma initAttrChange_order:
  assumes "distinct (map (\<lambda>(n, v). Lexeme n) props)"
    and "mset (rangeOrder P props) = mset props"
    and "mset (order props) = mset props"
    and "initAttrChange P c props = Return (c', None)"
  shows "initAttrChange (P\<lparr>rangeOrder := order\<rparr>) c props = Return (c', None)"
proof -
  from assms(2) have "mset (map (\<lambda>(n, v). Lexeme n) (rangeOrder P props)) =
      mset (map (\<lambda>(n, v). Lexeme n) props)"
    by (metis mset_map)
  with assms(1) have d: "distinct (map (\<lambda>(n, v). Lexeme n) (rangeOrder P props))"
    by (metis mset_eq_imp_distinct_iff)
  from assms(2,3) have m: "mset (rangeOrder P props) = mset (order props)" by simp
  from assms(4) have "initAttrChange_range P c (rangeOrder P props) = Return (c', None)"
    by (simp add: initAttrChange_def)
  from initAttrChange_range_perm [OF d m this] show ?thesis
    by (simp add: initAttrChange_def initAttrChange_range_rangeOrder)
qed

text \<open>
  The example platform and the example requests, evaluated.
\<close>

lemma example_ParseUint: "ParseUint examplePlatform ''7'' 10 64 = Inr 7"
  by (simp add: examplePlatform_def exampleParseUint_def isDigit_def digitVal_def)

lemma example_ParseIP:
  "ParseIP examplePlatform ''10.0.0.5'' = Some [0, 0, 0, 0, 0, 0, 0, 0, 0, 0, 0xFF, 0xFF, 10, 0, 0, 5]"
  "ParseIP examplePlatform ''db.example.com'' = None"
  by (simp_all add: examplePlatform_def exampleParseIP_def)

lemma example_rangeOrder: "rangeOrder examplePlatform ps = ps"
  by (simp add: examplePlatform_def)

lemma example_resolve_literal:
  "hostPortToAddr examplePlatform ''tcp'' ''10.0.0.5:5432'' =
     Inr \<lparr>IP = Some [0, 0, 0, 0, 0, 0, 0, 0, 0, 0, 0xFF, 0xFF, 10, 0, 0, 5], Port = 5432\<rparr>"
  unfolding hostPortToAddr_def port_step
  by (simp add: example_split_literal example_strict example_ParseIP)

lemma example_resolve_hostname:
  "hostPortToAddr examplePlatform ''tcp'' ''db.example.com:5432'' = Inl (ErrorString ''Invalid IP passed'')"
  unfolding hostPortToAddr_def
  by (simp add: example_split_hostname example_ParseIP)

lemma example_tokens:
  "Lexeme (tok l p) = l" "Pos (tok l p) = p"
  by (simp_all add: tok_def)

lemma example_patch_fields:
  "Action (examplePatch ps) = ActPatch \<lparr>PatchAction_tok = tok ''patch'' ''1:17'', PatchProps = ps\<rparr>"
  "Spec (examplePatch ps) = SpecOcn exampleOcnSpec"
  "Lexeme (TargetOcnSpec_Ocn exampleOcnSpec) = ''7''"
  "propsOf (Action (examplePatch ps)) = ps"
  by (simp_all add: examplePatch_def exampleOcnSpec_def tok_def propsOf_def)

lemma example_Analyze_patch:
  "Analyze P (examplePatch ps) =
     (case ParseUint P ''7'' 10 64 of
        Inl e \<Rightarrow> Return (PatchPtr None, Some (SemErr ''1:14'' ''Could not parse OCN, %v'' [ArgErr e]))
      | Inr ocnInt \<Rightarrow>
          (case initAttrChange P zeroAttrChange ps of
             Panic m \<Rightarrow> Panic m
           | Return (change, Some e) \<Rightarrow> Return (PatchPtr None, Some e)
           | Return (change, None) \<Rightarrow>
               Return (PatchPtr (Some
                 \<lparr>PatchDirective_Blamer = BlameAction (Action (examplePatch ps)),
                  PatchDirective_TargetOcn =
                    \<lparr>TargetOcn_Blamer = BlameSpec (SpecOcn exampleOcnSpec),
                     TargetOcn_TargetOne =
                       \<lparr>TargetOne_Blamer = BlameSpec (SpecOcn exampleOcnSpec), What = ''7''\<rparr>,
                     Ocn = ocnInt\<rparr>,
                  PatchDirective_Change = change\<rparr>), None)))"
  by (simp add: Analyze_def analyzePatch_def newPatchDirective_def example_patch_fields semErrf_def
        exampleOcnSpec_def tok_def
      split: sum.splits outcome.splits prod.splits option.splits)

text \<open>
  What the visit of a \<^verbatim>\<open>lock\<close> entry changes, and that the visits of entries with other
  names leave \<^verbatim>\<open>Lock\<close> and \<^verbatim>\<open>LockBlame\<close> as they are.
\<close>

lemma applyEntry_lock:
  "Lexeme name = ''lock'' \<Longrightarrow>
     applyEntry P (name, value) c =
       c\<lparr>Lock := (Lexeme value = lockTrue), LockBlame := Some (BlameToken value)\<rparr>"
  by (simp add: applyEntry_def)

lemma applyEntry_past_lock:
  assumes "Lexeme (fst x) \<noteq> ''lock''"
  shows "applyEntry P x (c\<lparr>Lock := b, LockBlame := l\<rparr>) = (applyEntry P x c)\<lparr>Lock := b, LockBlame := l\<rparr>"
proof -
  obtain n v where x: "x = (n, v)" by (cases x)
  from assms show ?thesis
    unfolding x by (simp add: applyEntry_def split: sum.splits)
qed

lemma fold_applyEntry_past_lock:
  "\<forall>(n, v) \<in> set xs. Lexeme n \<noteq> ''lock'' \<Longrightarrow>
     fold (applyEntry P) xs (c\<lparr>Lock := b, LockBlame := l\<rparr>) =
       (fold (applyEntry P) xs c)\<lparr>Lock := b, LockBlame := l\<rparr>"
proof (induction xs arbitrary: c)
  case Nil
  show ?case by simp
next
  case (Cons x xs)
  from Cons.prems have x: "Lexeme (fst x) \<noteq> ''lock''"
    and rest: "\<forall>(n, v) \<in> set xs. Lexeme n \<noteq> ''lock''"
    by (auto simp: case_prod_beta)
  show ?case
    by (simp add: applyEntry_past_lock [OF x] Cons.IH [OF rest])
qed

lemma initAttrChange_range_lock_accepted:
  assumes "Lexeme name = ''lock''"
    and "Lexeme value = lockTrue \<or> Lexeme value = lockFalse"
    and "\<forall>(n, v) \<in> set post. Lexeme n \<noteq> ''lock''"
    and "initAttrChange_range P change (pre @ post) = Return (others, None)"
  shows "initAttrChange_range P change (pre @ (name, value) # post) =
     Return (others\<lparr>Lock := (Lexeme value = lockTrue), LockBlame := Some (BlameToken value)\<rparr>, None)"
proof -
  let ?c0 = "fold (applyEntry P) pre change"
  from assms(4) have ok: "list_all (entryOk P) pre" "list_all (entryOk P) post"
    and others: "others = fold (applyEntry P) post ?c0"
    by (simp_all add: initAttrChange_range_success)
  from assms(1,2) have lk: "entryOk P (name, value)"
    by (simp add: entryOk_def)
  have "fold (applyEntry P) post (applyEntry P (name, value) ?c0) =
      others\<lparr>Lock := (Lexeme value = lockTrue), LockBlame := Some (BlameToken value)\<rparr>"
    by (simp add: applyEntry_lock [OF assms(1)] fold_applyEntry_past_lock [OF assms(3)] others)
  with ok lk show ?thesis
    by (simp add: initAttrChange_range_success)
qed

text \<open>
  C5 (amended). Let the visiting order of a property mapping contain an entry named
  \<^verbatim>\<open>lock\<close> with value token \<open>value\<close>. Suppose the other entries are valid, that is, the
  builder's loop over them returns the \<^verbatim>\<open>AttrChange\<close> \<open>others\<close> and no error, and none of
  those visited after the lock entry is named \<^verbatim>\<open>lock\<close>. Then: if the lexeme of \<open>value\<close>
  is exactly \<^verbatim>\<open>'true'\<close>, the builder returns, without error, \<open>others\<close> with \<^verbatim>\<open>Lock\<close> true
  and \<^verbatim>\<open>LockBlame\<close> the value token; if it is exactly \<^verbatim>\<open>'false'\<close>, the builder returns
  \<open>others\<close> with \<^verbatim>\<open>Lock\<close> false and \<^verbatim>\<open>LockBlame\<close> the value token. And if the lexeme is
  anything else and the entries visited before the lock entry are valid, the builder
  returns the lock error, whose message contains the lexeme as written, quotes included.
\<close>

theorem initAttrChange_lock:
  assumes "Lexeme name = ''lock''"
    and "rangeOrder P props = pre @ (name, value) # post"
  shows "((\<forall>(n, v) \<in> set post. Lexeme n \<noteq> ''lock'') \<and>
          initAttrChange_range P change (pre @ post) = Return (others, None) \<longrightarrow>
            (Lexeme value = lockTrue \<longrightarrow>
               initAttrChange P change props =
                 Return (others\<lparr>Lock := True, LockBlame := Some (BlameToken value)\<rparr>, None)) \<and>
            (Lexeme value = lockFalse \<longrightarrow>
               initAttrChange P change props =
                 Return (others\<lparr>Lock := False, LockBlame := Some (BlameToken value)\<rparr>, None))) \<and>
         (Lexeme value \<noteq> lockTrue \<and> Lexeme value \<noteq> lockFalse \<and>
          initAttrChange_range P change pre = Return (change1, None) \<longrightarrow>
            initAttrChange P change props = Return (change1, Some (lockError (Lexeme value))) \<and>
            (\<exists>msg. lockError (Lexeme value) = ErrorString msg \<and> sublist (Lexeme value) msg))"
proof (intro conjI impI)
  assume h: "(\<forall>(n, v) \<in> set post. Lexeme n \<noteq> ''lock'') \<and>
    initAttrChange_range P change (pre @ post) = Return (others, None)"
  assume t: "Lexeme value = lockTrue"
  from initAttrChange_range_lock_accepted [OF assms(1) _ conjunct1 [OF h] conjunct2 [OF h]] t
  show "initAttrChange P change props =
      Return (others\<lparr>Lock := True, LockBlame := Some (BlameToken value)\<rparr>, None)"
    by (simp add: initAttrChange_def assms(2))
next
  assume h: "(\<forall>(n, v) \<in> set post. Lexeme n \<noteq> ''lock'') \<and>
    initAttrChange_range P change (pre @ post) = Return (others, None)"
  assume f: "Lexeme value = lockFalse"
  from initAttrChange_range_lock_accepted [OF assms(1) _ conjunct1 [OF h] conjunct2 [OF h]] f
  show "initAttrChange P change props =
      Return (others\<lparr>Lock := False, LockBlame := Some (BlameToken value)\<rparr>, None)"
    using lockTrue_neq_lockFalse by (simp add: initAttrChange_def assms(2))
next
  assume h: "Lexeme value \<noteq> lockTrue \<and> Lexeme value \<noteq> lockFalse \<and>
    initAttrChange_range P change pre = Return (change1, None)"
  with assms(1) show "initAttrChange P change props = Return (change1, Some (lockError (Lexeme value)))"
    by (simp add: initAttrChange_def assms(2) initAttrChange_range_append)
  show "\<exists>msg. lockError (Lexeme value) = ErrorString msg \<and> sublist (Lexeme value) msg"
    unfolding lockError_def by (blast intro: sublist_appendI)
qed

text \<open>
  The claim as stated fails in two ways. When another entry is rejected first: with an
  \<^verbatim>\<open>addr\<close> entry naming a host and a \<^verbatim>\<open>lock\<close> entry \<^verbatim>\<open>'yes'\<close>, visited in this order, the
  builder returns the resolver's error, which does not contain \<^verbatim>\<open>'yes'\<close>. And when a
  second entry named \<^verbatim>\<open>lock\<close> is visited later: the mapping contains \<^verbatim>\<open>lock\<close> with
  \<^verbatim>\<open>'true'\<close>, and the built \<^verbatim>\<open>AttrChange\<close> has \<^verbatim>\<open>Lock\<close> false.
\<close>

theorem initAttrChange_lock_counterexample:
  "initAttrChange examplePlatform zeroAttrChange
     [(tok ''addr'' ''1:24'', tok (quoted ''db.example.com:5432'') ''1:29''),
      (tok ''lock'' ''1:52'', tok (quoted ''yes'') ''1:57'')] =
     Return (zeroAttrChange\<lparr>Addr := None\<rparr>, Some (ErrorString ''Invalid IP passed'')) \<and>
   \<not> sublist (quoted ''yes'') ''Invalid IP passed'' \<and>
   initAttrChange examplePlatform zeroAttrChange
     [(tok ''lock'' ''1:24'', tok (quoted ''true'') ''1:29''),
      (tok ''lock'' ''1:37'', tok (quoted ''false'') ''1:42'')] =
     Return (zeroAttrChange
       \<lparr>Lock := False, LockBlame := Some (BlameToken (tok (quoted ''false'') ''1:42''))\<rparr>, None)"
proof -
  have "\<not> sublist (quoted ''yes'') ''Invalid IP passed''"
    by code_simp
  then show ?thesis
    by (simp add: initAttrChange_def example_rangeOrder example_tokens quoted_def
          example_resolve_hostname lockTrue_def lockFalse_def)
qed

text \<open>
  The theorem at a mapping with \<^verbatim>\<open>dbnameIn\<close> visited first and \<^verbatim>\<open>lock\<close> visited last, with
  the lock values \<^verbatim>\<open>'true'\<close>, \<^verbatim>\<open>'false'\<close> and \<^verbatim>\<open>'yes'\<close>.
\<close>

theorem initAttrChange_lock_witness:
  "Lexeme (tok ''lock'' ''1:40'') = ''lock'' \<and>
   initAttrChange_range examplePlatform zeroAttrChange
     ([(tok ''dbnameIn'' ''1:24'', tok (quoted ''app'') ''1:33'')] @ []) =
     Return (zeroAttrChange
       \<lparr>DbnameIn := quoted ''app'',
        DbnameInBlame := Some (BlameToken (tok (quoted ''app'') ''1:33''))\<rparr>, None) \<and>
   Lexeme (tok (quoted ''true'') ''1:45'') = lockTrue \<and>
   initAttrChange examplePlatform zeroAttrChange
     [(tok ''dbnameIn'' ''1:24'', tok (quoted ''app'') ''1:33''),
      (tok ''lock'' ''1:40'', tok (quoted ''true'') ''1:45'')] =
     Return (zeroAttrChange
       \<lparr>DbnameIn := quoted ''app'',
        DbnameInBlame := Some (BlameToken (tok (quoted ''app'') ''1:33'')),
        Lock := True,
        LockBlame := Some (BlameToken (tok (quoted ''true'') ''1:45''))\<rparr>, None) \<and>
   Lexeme (tok (quoted ''false'') ''1:45'') = lockFalse \<and>
   initAttrChange examplePlatform zeroAttrChange
     [(tok ''dbnameIn'' ''1:24'', tok (quoted ''app'') ''1:33''),
      (tok ''lock'' ''1:40'', tok (quoted ''false'') ''1:45'')] =
     Return (zeroAttrChange
       \<lparr>DbnameIn := quoted ''app'',
        DbnameInBlame := Some (BlameToken (tok (quoted ''app'') ''1:33'')),
        Lock := False,
        LockBlame := Some (BlameToken (tok (quoted ''false'') ''1:45''))\<rparr>, None) \<and>
   Lexeme (tok (quoted ''yes'') ''1:45'') \<noteq> lockTrue \<and>
   Lexeme (tok (quoted ''yes'') ''1:45'') \<noteq> lockFalse \<and>
   initAttrChange examplePlatform zeroAttrChange
     [(tok ''dbnameIn'' ''1:24'', tok (quoted ''app'') ''1:33''),
      (tok ''lock'' ''1:40'', tok (quoted ''yes'') ''1:45'')] =
     Return (zeroAttrChange
       \<lparr>DbnameIn := quoted ''app'',
        DbnameInBlame := Some (BlameToken (tok (quoted ''app'') ''1:33''))\<rparr>,
       Some (lockError (quoted ''yes''))) \<and>
   (\<exists>msg. lockError (quoted ''yes'') = ErrorString msg \<and> sublist (quoted ''yes'') msg)"
proof -
  let ?d = "(tok ''dbnameIn'' ''1:24'', tok (quoted ''app'') ''1:33'')"
  let ?n = "tok ''lock'' ''1:40''"
  let ?t = "tok (quoted ''true'') ''1:45''"
  let ?f = "tok (quoted ''false'') ''1:45''"
  let ?y = "tok (quoted ''yes'') ''1:45''"
  let ?c1 = "zeroAttrChange
       \<lparr>DbnameIn := quoted ''app'',
        DbnameInBlame := Some (BlameToken (tok (quoted ''app'') ''1:33''))\<rparr>"
  have n: "Lexeme ?n = ''lock''" by (simp add: example_tokens)
  have none: "\<forall>(n, v) \<in> set []. Lexeme n \<noteq> ''lock''" by simp
  have ot: "rangeOrder examplePlatform [?d, (?n, ?t)] = [?d] @ (?n, ?t) # []"
    and "of": "rangeOrder examplePlatform [?d, (?n, ?f)] = [?d] @ (?n, ?f) # []"
    and oy: "rangeOrder examplePlatform [?d, (?n, ?y)] = [?d] @ (?n, ?y) # []"
    by (simp_all add: example_rangeOrder)
  have others: "initAttrChange_range examplePlatform zeroAttrChange ([?d] @ []) = Return (?c1, None)"
    and pre: "initAttrChange_range examplePlatform zeroAttrChange [?d] = Return (?c1, None)"
    by (simp_all add: example_tokens)
  have t: "Lexeme ?t = lockTrue" and f: "Lexeme ?f = lockFalse"
    and y: "Lexeme ?y \<noteq> lockTrue" "Lexeme ?y \<noteq> lockFalse"
    by (simp_all add: example_tokens quoted_def lockTrue_def lockFalse_def)
  note a = initAttrChange_lock [OF n ot, of zeroAttrChange ?c1 ?c1]
  note b = initAttrChange_lock [OF n "of", of zeroAttrChange ?c1 ?c1]
  note c = initAttrChange_lock [OF n oy, of zeroAttrChange ?c1 ?c1]
  from a b c show ?thesis
    using others pre t f y none by (simp add: example_tokens)
qed

subsection \<open>The analyzer\<close>

text \<open>
  C1 (what the code does). For the Patch request on the target named \<^verbatim>\<open>fdr\<close> at version
  \<^verbatim>\<open>7\<close> with the property \<^verbatim>\<open>addr = '10.0.0.5:5432'\<close>, \<^verbatim>\<open>Analyze\<close> returns a Patch
  directive whose \<^verbatim>\<open>Ocn\<close> is 7, the parsed version, and whose \<^verbatim>\<open>What\<close> is the text
  \<^verbatim>\<open>7\<close> of the version token, not the text \<^verbatim>\<open>fdr\<close> of the name token:
  \<^verbatim>\<open>newPatchDirective\<close> builds \<^verbatim>\<open>TargetOne{ocnSpec, ocnSpec.Ocn.Lexeme}\<close>.
\<close>

theorem analyzePatch_What_is_Ocn_lexeme:
  "Analyze examplePlatform
     (examplePatch [(tok ''addr'' ''1:24'', tok (quoted ''10.0.0.5:5432'') ''1:29'')]) =
   Return (PatchPtr (Some
     \<lparr>PatchDirective_Blamer =
        BlameAction (ActPatch \<lparr>PatchAction_tok = tok ''patch'' ''1:17'',
          PatchProps = [(tok ''addr'' ''1:24'', tok (quoted ''10.0.0.5:5432'') ''1:29'')]\<rparr>),
      PatchDirective_TargetOcn =
        \<lparr>TargetOcn_Blamer = BlameSpec (SpecOcn exampleOcnSpec),
         TargetOcn_TargetOne =
           \<lparr>TargetOne_Blamer = BlameSpec (SpecOcn exampleOcnSpec), What = ''7''\<rparr>,
         Ocn = 7\<rparr>,
      PatchDirective_Change =
        \<lparr>AddrBlame = Some (BlameToken (tok (quoted ''10.0.0.5:5432'') ''1:29'')),
         Addr = Some \<lparr>IP = Some [0, 0, 0, 0, 0, 0, 0, 0, 0, 0, 0xFF, 0xFF, 10, 0, 0, 5],
                      Port = 5432\<rparr>,
         DbnameInBlame = None, DbnameIn = [],
         DbnameRewrittenBlame = None, DbnameRewritten = [],
         LockBlame = None, Lock = False\<rparr>\<rparr>), None) \<and>
   Lexeme (TargetOcnSpec_What exampleOcnSpec) = ''fdr'' \<and>
   Lexeme (TargetOcnSpec_Ocn exampleOcnSpec) = ''7''"
proof -
  have ocn: "Lexeme (TargetOcnSpec_Ocn exampleOcnSpec) = ''7''"
    and what: "Lexeme (TargetOcnSpec_What exampleOcnSpec) = ''fdr''"
    by (simp_all add: exampleOcnSpec_def tok_def)
  have "initAttrChange examplePlatform zeroAttrChange
          [(tok ''addr'' ''1:24'', tok (quoted ''10.0.0.5:5432'') ''1:29'')] =
        Return (zeroAttrChange
          \<lparr>Addr := Some \<lparr>IP = Some [0, 0, 0, 0, 0, 0, 0, 0, 0, 0, 0xFF, 0xFF, 10, 0, 0, 5],
                          Port = 5432\<rparr>,
           AddrBlame := Some (BlameToken (tok (quoted ''10.0.0.5:5432'') ''1:29''))\<rparr>, None)"
    by (simp add: initAttrChange_def example_rangeOrder example_tokens quoted_def
          example_resolve_literal)
  then show ?thesis
    by (simp add: Analyze_def analyzePatch_def newPatchDirective_def examplePatch_def ocn what
          example_ParseUint zeroAttrChange_def)
qed

text \<open>
  C4 (what the code does). For a Patch request whose property mapping has the entry
  \<^verbatim>\<open>lock\<close> with the value \<^verbatim>\<open>'yes'\<close>, \<^verbatim>\<open>Analyze\<close> returns the error that \<^verbatim>\<open>initAttrChange\<close>
  built with \<^verbatim>\<open>fmt.Errorf\<close>: its text is the message alone, and it carries no source
  position, although the value token is at hand where the error is built.
\<close>

theorem Analyze_lock_error_without_position:
  "Analyze examplePlatform
     (examplePatch [(tok ''lock'' ''1:24'', tok (quoted ''yes'') ''1:29'')]) =
     Return (PatchPtr None,
       Some (ErrorString
         (''Could not recognize lock literal 'yes', choose 'true' or 'false'' @ [CHR 0x27]))) \<and>
   errPos (ErrorString
     (''Could not recognize lock literal 'yes', choose 'true' or 'false'' @ [CHR 0x27])) = None"
  by (simp add: example_Analyze_patch example_ParseUint initAttrChange_def example_rangeOrder
        example_tokens quoted_def lockTrue_def lockFalse_def lockError_def)

text \<open>
  C9 (amended). When the field names of the request's property mapping are pairwise
  different, a directive that \<^verbatim>\<open>Analyze\<close> returns without error under one visiting order
  of the mapping is returned under every other visiting order as well: the successful
  output does not depend on the order the runtime chooses for \<^verbatim>\<open>range\<close>.
\<close>

theorem Analyze_order_independent:
  assumes "distinct (map (\<lambda>(n, v). Lexeme n) (propsOf (Action req)))"
    and "mset (rangeOrder P (propsOf (Action req))) = mset (propsOf (Action req))"
    and "mset (order (propsOf (Action req))) = mset (propsOf (Action req))"
    and "Analyze P req = Return (d, None)"
  shows "Analyze (P\<lparr>rangeOrder := order\<rparr>) req = Return (d, None)"
proof (cases "Action req")
  case (ActPatch a)
  note io = initAttrChange_order [where props = "PatchProps a" and P = P and order = order,
      OF assms(1-3)[unfolded ActPatch propsOf_def, simplified]]
  from assms(4) show ?thesis
    by (auto simp: ActPatch Analyze_def analyzePatch_def newPatchDirective_def Let_def
          split: TargetSpecSyntax.splits sum.splits outcome.splits prod.splits option.splits
          dest: io)
next
  case (ActCreate a)
  note io = initAttrChange_order [where props = "CreateProps a" and P = P and order = order,
      OF assms(1-3)[unfolded ActCreate propsOf_def, simplified]]
  from assms(4) show ?thesis
    by (auto simp: ActCreate Analyze_def analyzeCreate_def newCreateDirective_def Let_def
          split: TargetSpecSyntax.splits sum.splits outcome.splits prod.splits option.splits
          dest: io)
next
  case (ActGet a)
  with assms(4) show ?thesis by (simp add: Analyze_def)
next
  case (ActDelete a)
  with assms(4) show ?thesis by (simp add: Analyze_def)
next
  case (ActOther ty)
  with assms(4) show ?thesis by (simp add: Analyze_def)
qed

text \<open>
  The claim as stated fails for a mapping with two entries named \<^verbatim>\<open>lock\<close> (two
  different key tokens), \<^verbatim>\<open>'true'\<close> and \<^verbatim>\<open>'false'\<close>: the entry visited last decides, so
  the two visiting orders give directives that differ in \<^verbatim>\<open>Lock\<close> and \<^verbatim>\<open>LockBlame\<close>.
\<close>

theorem Analyze_order_counterexample:
  "Analyze examplePlatform
     (examplePatch [(tok ''lock'' ''1:24'', tok (quoted ''true'') ''1:29''),
                    (tok ''lock'' ''1:37'', tok (quoted ''false'') ''1:42'')]) =
   Return (PatchPtr (Some
     \<lparr>PatchDirective_Blamer =
        BlameAction (Action
          (examplePatch [(tok ''lock'' ''1:24'', tok (quoted ''true'') ''1:29''),
                         (tok ''lock'' ''1:37'', tok (quoted ''false'') ''1:42'')])),
      PatchDirective_TargetOcn =
        \<lparr>TargetOcn_Blamer = BlameSpec (SpecOcn exampleOcnSpec),
         TargetOcn_TargetOne =
           \<lparr>TargetOne_Blamer = BlameSpec (SpecOcn exampleOcnSpec), What = ''7''\<rparr>,
         Ocn = 7\<rparr>,
      PatchDirective_Change =
        zeroAttrChange
          \<lparr>Lock := False,
           LockBlame := Some (BlameToken (tok (quoted ''false'') ''1:42''))\<rparr>\<rparr>), None) \<and>
   Analyze (examplePlatform\<lparr>rangeOrder := rev\<rparr>)
     (examplePatch [(tok ''lock'' ''1:24'', tok (quoted ''true'') ''1:29''),
                    (tok ''lock'' ''1:37'', tok (quoted ''false'') ''1:42'')]) =
   Return (PatchPtr (Some
     \<lparr>PatchDirective_Blamer =
        BlameAction (Action
          (examplePatch [(tok ''lock'' ''1:24'', tok (quoted ''true'') ''1:29''),
                         (tok ''lock'' ''1:37'', tok (quoted ''false'') ''1:42'')])),
      PatchDirective_TargetOcn =
        \<lparr>TargetOcn_Blamer = BlameSpec (SpecOcn exampleOcnSpec),
         TargetOcn_TargetOne =
           \<lparr>TargetOne_Blamer = BlameSpec (SpecOcn exampleOcnSpec), What = ''7''\<rparr>,
         Ocn = 7\<rparr>,
      PatchDirective_Change =
        zeroAttrChange
          \<lparr>Lock := True,
           LockBlame := Some (BlameToken (tok (quoted ''true'') ''1:29''))\<rparr>\<rparr>), None)"
proof -
  have pu: "ParseUint (examplePlatform\<lparr>rangeOrder := rev\<rparr>) ''7'' 10 64 = Inr 7"
    using example_ParseUint by simp
  show ?thesis
    by (simp add: example_Analyze_patch example_ParseUint pu initAttrChange_def
          example_rangeOrder example_tokens quoted_def lockTrue_def lockFalse_def)
qed

text \<open>
  The theorem at a Patch request with \<^verbatim>\<open>addr\<close> and \<^verbatim>\<open>lock\<close>, visited in the order of
  the list and in the reverse order.
\<close>

theorem Analyze_order_independent_witness:
  "distinct (map (\<lambda>(n, v). Lexeme n)
     (propsOf (Action (examplePatch
        [(tok ''addr'' ''1:24'', tok (quoted ''10.0.0.5:5432'') ''1:29''),
         (tok ''lock'' ''1:46'', tok (quoted ''true'') ''1:51'')])))) \<and>
   mset (rev [(tok ''addr'' ''1:24'', tok (quoted ''10.0.0.5:5432'') ''1:29''),
              (tok ''lock'' ''1:46'', tok (quoted ''true'') ''1:51'')]) =
   mset [(tok ''addr'' ''1:24'', tok (quoted ''10.0.0.5:5432'') ''1:29''),
         (tok ''lock'' ''1:46'', tok (quoted ''true'') ''1:51'')] \<and>
   Analyze examplePlatform
     (examplePatch [(tok ''addr'' ''1:24'', tok (quoted ''10.0.0.5:5432'') ''1:29''),
                    (tok ''lock'' ''1:46'', tok (quoted ''true'') ''1:51'')]) =
   Return (PatchPtr (Some
     \<lparr>PatchDirective_Blamer =
        BlameAction (Action
          (examplePatch [(tok ''addr'' ''1:24'', tok (quoted ''10.0.0.5:5432'') ''1:29''),
                         (tok ''lock'' ''1:46'', tok (quoted ''true'') ''1:51'')])),
      PatchDirective_TargetOcn =
        \<lparr>TargetOcn_Blamer = BlameSpec (SpecOcn exampleOcnSpec),
         TargetOcn_TargetOne =
           \<lparr>TargetOne_Blamer = BlameSpec (SpecOcn exampleOcnSpec), What = ''7''\<rparr>,
         Ocn = 7\<rparr>,
      PatchDirective_Change =
        zeroAttrChange
          \<lparr>Addr := Some \<lparr>IP = Some [0, 0, 0, 0, 0, 0, 0, 0, 0, 0, 0xFF, 0xFF, 10, 0, 0, 5],
                          Port = 5432\<rparr>,
           AddrBlame := Some (BlameToken (tok (quoted ''10.0.0.5:5432'') ''1:29'')),
           Lock := True,
           LockBlame := Some (BlameToken (tok (quoted ''true'') ''1:51''))\<rparr>\<rparr>), None) \<and>
   Analyze (examplePlatform\<lparr>rangeOrder := rev\<rparr>)
     (examplePatch [(tok ''addr'' ''1:24'', tok (quoted ''10.0.0.5:5432'') ''1:29''),
                    (tok ''lock'' ''1:46'', tok (quoted ''true'') ''1:51'')]) =
   Return (PatchPtr (Some
     \<lparr>PatchDirective_Blamer =
        BlameAction (Action
          (examplePatch [(tok ''addr'' ''1:24'', tok (quoted ''10.0.0.5:5432'') ''1:29''),
                         (tok ''lock'' ''1:46'', tok (quoted ''true'') ''1:51'')])),
      PatchDirective_TargetOcn =
        \<lparr>TargetOcn_Blamer = BlameSpec (SpecOcn exampleOcnSpec),
         TargetOcn_TargetOne =
           \<lparr>TargetOne_Blamer = BlameSpec (SpecOcn exampleOcnSpec), What = ''7''\<rparr>,
         Ocn = 7\<rparr>,
      PatchDirective_Change =
        zeroAttrChange
          \<lparr>Addr := Some \<lparr>IP = Some [0, 0, 0, 0, 0, 0, 0, 0, 0, 0, 0xFF, 0xFF, 10, 0, 0, 5],
                          Port = 5432\<rparr>,
           AddrBlame := Some (BlameToken (tok (quoted ''10.0.0.5:5432'') ''1:29'')),
           Lock := True,
           LockBlame := Some (BlameToken (tok (quoted ''true'') ''1:51''))\<rparr>\<rparr>), None)"
proof -
  let ?ps = "[(tok ''addr'' ''1:24'', tok (quoted ''10.0.0.5:5432'') ''1:29''),
              (tok ''lock'' ''1:46'', tok (quoted ''true'') ''1:51'')]"
  have d: "distinct (map (\<lambda>(n, v). Lexeme n) (propsOf (Action (examplePatch ?ps))))"
    by (simp add: example_patch_fields(4) example_tokens)
  have m1: "mset (rangeOrder examplePlatform (propsOf (Action (examplePatch ?ps)))) =
      mset (propsOf (Action (examplePatch ?ps)))"
    by (simp add: example_rangeOrder)
  have m2: "mset (rev (propsOf (Action (examplePatch ?ps)))) = mset (propsOf (Action (examplePatch ?ps)))"
    by simp
  have a: "Analyze examplePlatform (examplePatch ?ps) =
    Return (PatchPtr (Some
     \<lparr>PatchDirective_Blamer = BlameAction (Action (examplePatch ?ps)),
      PatchDirective_TargetOcn =
        \<lparr>TargetOcn_Blamer = BlameSpec (SpecOcn exampleOcnSpec),
         TargetOcn_TargetOne =
           \<lparr>TargetOne_Blamer = BlameSpec (SpecOcn exampleOcnSpec), What = ''7''\<rparr>,
         Ocn = 7\<rparr>,
      PatchDirective_Change =
        zeroAttrChange
          \<lparr>Addr := Some \<lparr>IP = Some [0, 0, 0, 0, 0, 0, 0, 0, 0, 0, 0xFF, 0xFF, 10, 0, 0, 5],
                          Port = 5432\<rparr>,
           AddrBlame := Some (BlameToken (tok (quoted ''10.0.0.5:5432'') ''1:29'')),
           Lock := True,
           LockBlame := Some (BlameToken (tok (quoted ''true'') ''1:51''))\<rparr>\<rparr>), None)"
    by (simp add: example_Analyze_patch example_ParseUint initAttrChange_def
          example_rangeOrder example_tokens quoted_def lockTrue_def example_resolve_literal)
  from Analyze_order_independent [where order = rev, OF d m1 m2 a] show ?thesis
    using d a by simp
qed

end
